theory Spec2Isabelle
  imports Main "HOL-Library.Sublist"
begin

section \<open>Strings and the regular expressions of the parser\<close>

text \<open>
  A JavaScript string is modelled as a \<^typ>\<open>string\<close>: a list of code units, each below 256.
  The class \<^verbatim>\<open>\s\<close> of a JavaScript regular expression holds, in that range, the code
  units 9 to 13, 32 and 160.
\<close>

definition isSpaceChar :: "char \<Rightarrow> bool" where
  "isSpaceChar c = (of_char c \<in> {9::nat, 10, 11, 12, 13, 32, 160})"

text \<open>\<^verbatim>\<open>isWhitespace(string)\<close>: no character of the string matches \<^verbatim>\<open>/\S/\<close>.\<close>

definition isWhitespace :: "string \<Rightarrow> bool" where
  "isWhitespace s = list_all isSpaceChar s"

text \<open>
  The parser only builds regular expressions of five shapes. \<^verbatim>\<open>escapeRegExp\<close> puts a
  backslash before every character that is special in a pattern, so that the escaped
  delimiter matches the delimiter literally; the model keeps the literal.
  \<^item> \<open>LiteralThenSpace l\<close> is \<^verbatim>\<open>escapeRegExp(l) + '\\s*'\<close> (\<^verbatim>\<open>openingTagRe\<close>);
  \<^item> \<open>SpaceThenLiteral l\<close> is \<^verbatim>\<open>'\\s*' + escapeRegExp(l)\<close> (\<^verbatim>\<open>closingTagRe\<close>,
    \<^verbatim>\<open>closingCurlyRe\<close>, \<^verbatim>\<open>equalsRe\<close>, \<^verbatim>\<open>curlyRe\<close>);
  \<^item> \<open>AnySpace\<close> is \<^verbatim>\<open>/\s*/\<close> (\<^verbatim>\<open>whiteRe\<close>);
  \<^item> \<open>SomeSpace\<close> is \<^verbatim>\<open>/\s+/\<close> (\<^verbatim>\<open>spaceRe\<close>);
  \<^item> \<open>OneCharOf cs\<close> is an alternation of single characters (\<^verbatim>\<open>tagRe\<close>).
\<close>

datatype regexp =
    LiteralThenSpace string
  | SpaceThenLiteral string
  | AnySpace
  | SomeSpace
  | OneCharOf string

text \<open>
  \<open>spaceThenLiteral l s k\<close>: the backtracking of \<^verbatim>\<open>\s*\<close> followed by a literal. The star
  is greedy: it first takes all \<open>k\<close> leading white characters and gives them back one by
  one until the literal matches.
\<close>

fun spaceThenLiteral :: "string \<Rightarrow> string \<Rightarrow> nat \<Rightarrow> nat option" where
  "spaceThenLiteral l s 0 = (if prefix l s then Some (length l) else None)"
| "spaceThenLiteral l s (Suc k) =
     (if prefix l (drop (Suc k) s) then Some (Suc k + length l) else spaceThenLiteral l s k)"

text \<open>\<open>matchAt re s\<close>: the length of the match of \<open>re\<close> that starts at the first character of \<open>s\<close>.\<close>

fun matchAt :: "regexp \<Rightarrow> string \<Rightarrow> nat option" where
  "matchAt (LiteralThenSpace l) s =
     (if prefix l s then Some (length l + length (takeWhile isSpaceChar (drop (length l) s)))
      else None)"
| "matchAt (SpaceThenLiteral l) s = spaceThenLiteral l s (length (takeWhile isSpaceChar s))"
| "matchAt AnySpace s = Some (length (takeWhile isSpaceChar s))"
| "matchAt SomeSpace s =
     (if takeWhile isSpaceChar s = [] then None else Some (length (takeWhile isSpaceChar s)))"
| "matchAt (OneCharOf cs) s =
     (case s of [] \<Rightarrow> None | c # _ \<Rightarrow> if c \<in> set cs then Some 1 else None)"

text \<open>\<^verbatim>\<open>String.prototype.search\<close>: the index of the leftmost match, the end of the string included.\<close>

fun search :: "regexp \<Rightarrow> string \<Rightarrow> nat option" where
  "search re [] = (case matchAt re [] of Some _ \<Rightarrow> Some 0 | None \<Rightarrow> None)"
| "search re (c # cs) =
     (case matchAt re (c # cs) of Some _ \<Rightarrow> Some 0 | None \<Rightarrow> map_option Suc (search re cs))"

definition whiteRe :: regexp where "whiteRe = AnySpace"
definition spaceRe :: regexp where "spaceRe = SomeSpace"
definition equalsRe :: regexp where "equalsRe = SpaceThenLiteral ''=''"
definition curlyRe :: regexp where "curlyRe = SpaceThenLiteral ''}''"
definition tagRe :: regexp where "tagRe = OneCharOf ''#^/>{&=!''"

text \<open>
  \<^verbatim>\<open>string.split(spaceRe, 2)\<close>: the text before the first run of white space, and, when there
  is such a run, the text between it and the next one (the limit 2 drops what follows).
\<close>

definition splitSpace2 :: "string \<Rightarrow> string list" where
  "splitSpace2 s =
     (let a = takeWhile (\<lambda>c. \<not> isSpaceChar c) s;
          r = dropWhile (\<lambda>c. \<not> isSpaceChar c) s
      in if r = [] then [a]
         else [a, takeWhile (\<lambda>c. \<not> isSpaceChar c) (dropWhile isSpaceChar r)])"

text \<open>\<^verbatim>\<open>array.join(sep)\<close> and \<^verbatim>\<open>string.split(c)\<close> for a one-character separator.\<close>

fun join :: "string \<Rightarrow> string list \<Rightarrow> string" where
  "join sep [] = []"
| "join sep [x] = x"
| "join sep (x # y # ys) = x @ sep @ join sep (y # ys)"

fun splitChar :: "char \<Rightarrow> string \<Rightarrow> string list" where
  "splitChar c [] = [[]]"
| "splitChar c (x # xs) =
     (if x = c then [] # splitChar c xs
      else (case splitChar c xs of [] \<Rightarrow> [[x]] | y # ys \<Rightarrow> (x # y) # ys))"

text \<open>\<^verbatim>\<open>string.slice(a, b)\<close> for offsets that are not negative; \<open>None\<close> is \<^verbatim>\<open>undefined\<close>, the end.\<close>

definition slice :: "string \<Rightarrow> nat \<Rightarrow> nat option \<Rightarrow> string" where
  "slice s a b = (case b of None \<Rightarrow> drop a s | Some e \<Rightarrow> drop a (take e s))"

section \<open>Scanner\<close>

text \<open>
  Modelled from the spec: the Scanner (a cursor over the template, with \<^verbatim>\<open>eos\<close>,
  \<^verbatim>\<open>scan\<close> and \<^verbatim>\<open>scanUntil\<close>) is used by \<^verbatim>\<open>parseTemplate\<close> and its code is not among the
  sources. \<open>scan\<close> consumes a match that starts exactly at the cursor and returns it, or
  returns the empty string and stays; \<open>scanUntil\<close> skips to the first match at or after
  the cursor, or to the end of the string, and returns what it skipped.
\<close>

record scanner =
  tail :: string
  pos :: nat

definition Scanner :: "string \<Rightarrow> scanner" where
  "Scanner s = \<lparr>tail = s, pos = 0\<rparr>"

definition eos :: "scanner \<Rightarrow> bool" where
  "eos sc = (tail sc = [])"

definition scan :: "regexp \<Rightarrow> scanner \<Rightarrow> string \<times> scanner" where
  "scan re sc =
     (case matchAt re (tail sc) of
        None \<Rightarrow> ([], sc)
      | Some n \<Rightarrow> (take n (tail sc), \<lparr>tail = drop n (tail sc), pos = pos sc + n\<rparr>))"

definition scanUntil :: "regexp \<Rightarrow> scanner \<Rightarrow> string \<times> scanner" where
  "scanUntil re sc =
     (case search re (tail sc) of
        None \<Rightarrow> (tail sc, \<lparr>tail = [], pos = pos sc + length (tail sc)\<rparr>)
      | Some i \<Rightarrow> (take i (tail sc), \<lparr>tail = drop i (tail sc), pos = pos sc + i\<rparr>))"

section \<open>Tokens\<close>

text \<open>
  A token is a JavaScript array: \<^verbatim>\<open>[type, value, start, end]\<close> (\<open>Tok\<close>); a section after
  \<^verbatim>\<open>nestTokens\<close> has two more elements, its children and the offset at which its closing
  tag begins (\<open>Sec\<close>; the offset is \<open>None\<close> while it is \<^verbatim>\<open>undefined\<close>); a partial has three
  more, the indentation, the index of the tag on its line and \<^verbatim>\<open>lineHasNonSpace\<close> (\<open>Par\<close>).
\<close>

datatype token =
    Tok (ttype: string) (tvalue: string) (tstart: nat) (tend: nat)
  | Sec (ttype: string) (tvalue: string) (tstart: nat) (tend: nat)
        (tchildren: "token list") (tclose: "nat option")
  | Par (ttype: string) (tvalue: string) (tstart: nat) (tend: nat)
        (tindent: string) (ttagIndex: nat) (tlineHasNonSpace: bool)

datatype error =
    InvalidTags "string list"
  | UnclosedTag nat
  | UnopenedSection string nat
  | UnclosedSection string nat
  | NoOriginalTemplate
  | TypeError
  | RangeError
  | Thrown string

section \<open>parseTemplate\<close>

text \<open>
  The local variables of \<^verbatim>\<open>parseTemplate\<close>. \<open>tokens\<close> is an array with holes: \<^verbatim>\<open>delete\<close>
  leaves \<open>None\<close> at an index and keeps the length. \<open>sections\<close> and \<open>spaces\<close> are stacks,
  written with the top first: \<^verbatim>\<open>push\<close> is \<open>#\<close>.
\<close>

record pstate =
  scanner :: scanner
  lineHasNonSpace :: bool
  sections :: "token list"
  tokens :: "token option list"
  spaces :: "nat list"
  hasTag :: bool
  nonSpace :: bool
  indentation :: string
  tagIndex :: nat
  openingTagRe :: regexp
  closingTagRe :: regexp
  closingCurlyRe :: regexp

text \<open>\<^verbatim>\<open>while (spaces.length) delete tokens[spaces.pop()]\<close>\<close>

fun deleteAll :: "nat list \<Rightarrow> token option list \<Rightarrow> token option list" where
  "deleteAll [] ts = ts"
| "deleteAll (i # is) ts = deleteAll is (ts[i := None])"

definition stripSpace :: "pstate \<Rightarrow> pstate" where
  "stripSpace st =
     (if hasTag st \<and> \<not> nonSpace st
      then st\<lparr>tokens := deleteAll (spaces st) (tokens st), spaces := [],
              hasTag := False, nonSpace := False\<rparr>
      else st\<lparr>spaces := [], hasTag := False, nonSpace := False\<rparr>)"

text \<open>
  \<^verbatim>\<open>compileTags\<close>: its argument is a string (the body of a \<^verbatim>\<open>{{=...=}}\<close> tag) or an array.
\<close>

datatype tagsArg = TagsString string | TagsArray "string list"

definition compileTags :: "tagsArg \<Rightarrow> pstate \<Rightarrow> error + pstate" where
  "compileTags tagsToCompile st =
     (let arr = (case tagsToCompile of TagsString s \<Rightarrow> splitSpace2 s | TagsArray a \<Rightarrow> a)
      in if length arr \<noteq> 2 then Inl (InvalidTags arr)
         else Inr (st\<lparr>openingTagRe := LiteralThenSpace (arr ! 0),
                      closingTagRe := SpaceThenLiteral (arr ! 1),
                      closingCurlyRe := SpaceThenLiteral (''}'' @ arr ! 1)\<rparr>))"

text \<open>The \<^verbatim>\<open>for\<close> loop over the characters of the text before a tag; it returns \<^verbatim>\<open>start\<close> too.\<close>

fun textChars :: "string \<Rightarrow> nat \<Rightarrow> pstate \<Rightarrow> nat \<times> pstate" where
  "textChars [] start st = (start, st)"
| "textChars (chr # rest) start st =
     (let st1 = (if isWhitespace [chr]
                 then st\<lparr>spaces := length (tokens st) # spaces st,
                         indentation := indentation st @ [chr]\<rparr>
                 else st\<lparr>nonSpace := True, lineHasNonSpace := True,
                         indentation := indentation st @ '' ''\<rparr>);
          st2 = st1\<lparr>tokens := tokens st1 @ [Some (Tok ''text'' [chr] start (start + 1))]\<rparr>;
          st3 = (if chr = CHR 0x0A
                 then (stripSpace st2)\<lparr>indentation := [], tagIndex := 0,
                                       lineHasNonSpace := False\<rparr>
                 else st2)
      in textChars rest (start + 1) st3)"

text \<open>One turn of the \<^verbatim>\<open>while\<close> loop: it goes on, leaves the loop (\<^verbatim>\<open>break\<close>) or throws.\<close>

datatype turn = Continue pstate | Break pstate | Throw error

definition readTag :: "string \<Rightarrow> pstate \<Rightarrow> string \<times> string \<times> scanner" where
  "readTag type0 st =
     (if type0 = ''=''
      then (let (v, sc1) = scanUntil equalsRe (scanner st);
                (_, sc2) = scan equalsRe sc1;
                (_, sc3) = scanUntil (closingTagRe st) sc2
            in (type0, v, sc3))
      else if type0 = ''{''
      then (let (v, sc1) = scanUntil (closingCurlyRe st) (scanner st);
                (_, sc2) = scan curlyRe sc1;
                (_, sc3) = scanUntil (closingTagRe st) sc2
            in (''&'', v, sc3))
      else (let (v, sc1) = scanUntil (closingTagRe st) (scanner st) in (type0, v, sc1)))"

definition afterTag :: "string \<Rightarrow> string \<Rightarrow> nat \<Rightarrow> token \<Rightarrow> pstate \<Rightarrow> turn" where
  "afterTag type v start token st =
     (if type = ''#'' \<or> type = ''^'' then Continue (st\<lparr>sections := token # sections st\<rparr>)
      else if type = ''/'' then
        (case sections st of
           [] \<Rightarrow> Throw (UnopenedSection v start)
         | openSection # below \<Rightarrow>
             if tvalue openSection \<noteq> v then Throw (UnclosedSection (tvalue openSection) start)
             else Continue (st\<lparr>sections := below\<rparr>))
      else if type = ''name'' \<or> type = ''{'' \<or> type = ''&'' then Continue (st\<lparr>nonSpace := True\<rparr>)
      else if type = ''='' then
        (case compileTags (TagsString v) st of Inl e \<Rightarrow> Throw e | Inr st' \<Rightarrow> Continue st')
      else Continue st)"

text \<open>
  The first part of a turn, up to \<^verbatim>\<open>tokens.push(token)\<close>: it finds no opening tag
  (\<open>NoTag\<close>, the \<^verbatim>\<open>break\<close>), or the tag is not closed (\<open>Unclosed\<close>, with
  \<^verbatim>\<open>scanner.pos\<close>), or it has read a tag: its type, its value, \<^verbatim>\<open>start\<close> and the token.
\<close>

datatype reading = NoTag pstate | Unclosed nat | Tag string string nat token pstate

definition readTurn :: "pstate \<Rightarrow> reading" where
  "readTurn st =
     (let start0 = pos (scanner st);
          (v0, sc1) = scanUntil (openingTagRe st) (scanner st);
          (start, st1) = textChars v0 start0 (st\<lparr>scanner := sc1\<rparr>);
          (opened, sc2) = scan (openingTagRe st1) (scanner st1)
      in if opened = [] then NoTag (st1\<lparr>scanner := sc2\<rparr>)
         else
           (let st2 = st1\<lparr>hasTag := True\<rparr>;
                (t, sc3) = scan tagRe sc2;
                type0 = (if t = [] then ''name'' else t);
                (_, sc4) = scan whiteRe sc3;
                (type, v, sc5) = readTag type0 (st2\<lparr>scanner := sc4\<rparr>);
                (closed, sc6) = scan (closingTagRe st2) sc5
            in if closed = [] then Unclosed (pos sc6)
               else
                 (let token = (if type = ''>''
                               then Par type v start (pos sc6) (indentation st2) (tagIndex st2)
                                        (lineHasNonSpace st2)
                               else Tok type v start (pos sc6));
                      st3 = st2\<lparr>scanner := sc6, tagIndex := tagIndex st2 + 1,
                                tokens := tokens st2 @ [Some token]\<rparr>
                  in Tag type v start token st3)))"

definition turn :: "pstate \<Rightarrow> turn" where
  "turn st =
     (case readTurn st of
        NoTag st' \<Rightarrow> Break st'
      | Unclosed p \<Rightarrow> Throw (UnclosedTag p)
      | Tag type v start token st3 \<Rightarrow> afterTag type v start token st3)"

text \<open>A turn that goes on has consumed an opening tag, which is not empty.\<close>

lemma scan_tail_le: "scan re sc = (m, sc') \<Longrightarrow> length (tail sc') \<le> length (tail sc)"
  by (auto simp: scan_def split: option.splits)

lemma scan_tail_less:
  "scan re sc = (m, sc') \<Longrightarrow> m \<noteq> [] \<Longrightarrow> length (tail sc') < length (tail sc)"
  by (cases "tail sc") (auto simp: scan_def split: option.splits)

lemma scanUntil_tail_le: "scanUntil re sc = (m, sc') \<Longrightarrow> length (tail sc') \<le> length (tail sc)"
  by (auto simp: scanUntil_def split: option.splits)

lemma stripSpace_scanner: "scanner (stripSpace st) = scanner st"
  by (simp add: stripSpace_def)

lemma textChars_scanner: "textChars v start st = (start', st') \<Longrightarrow> scanner st' = scanner st"
  by (induction v start st rule: textChars.induct)
     (auto simp: Let_def stripSpace_scanner split: if_splits)

lemma readTag_tail_le:
  "readTag type0 st = (type, v, sc') \<Longrightarrow> length (tail sc') \<le> length (tail (scanner st))"
proof -
  assume r: "readTag type0 st = (type, v, sc')"
  have two: "\<And>re1 re2 re3 sc a b c sa sb sc3.
      scanUntil re1 sc = (a, sa) \<Longrightarrow> scan re2 sa = (b, sb) \<Longrightarrow> scanUntil re3 sb = (c, sc3) \<Longrightarrow>
      length (tail sc3) \<le> length (tail sc)"
    by (meson le_trans scanUntil_tail_le scan_tail_le)
  from r show ?thesis
    by (auto simp: readTag_def split: if_splits prod.splits dest: two scanUntil_tail_le)
qed

lemma compileTags_scanner: "compileTags t st = Inr st' \<Longrightarrow> scanner st' = scanner st"
  by (auto simp: compileTags_def Let_def split: if_splits)

lemma afterTag_scanner: "afterTag type v start token st = Continue st' \<Longrightarrow> scanner st' = scanner st"
  by (auto simp: afterTag_def split: if_splits list.splits sum.splits dest: compileTags_scanner)

lemma readTurn_Tag_shorter:
  assumes "readTurn st = Tag type v start token st3"
  shows "length (tail (scanner st3)) < length (tail (scanner st))"
proof -
  obtain v0 sc1 where s1: "scanUntil (openingTagRe st) (scanner st) = (v0, sc1)"
    by (cases "scanUntil (openingTagRe st) (scanner st)")
  obtain start' st1 where s2: "textChars v0 (pos (scanner st)) (st\<lparr>scanner := sc1\<rparr>) = (start', st1)"
    by (cases "textChars v0 (pos (scanner st)) (st\<lparr>scanner := sc1\<rparr>)")
  obtain opened sc2 where s3: "scan (openingTagRe st1) (scanner st1) = (opened, sc2)"
    by (cases "scan (openingTagRe st1) (scanner st1)")
  obtain t sc3 where s4: "scan tagRe sc2 = (t, sc3)"
    by (cases "scan tagRe sc2")
  obtain ws sc4 where s5: "scan whiteRe sc3 = (ws, sc4)"
    by (cases "scan whiteRe sc3")
  obtain type' v' sc5 where s6:
    "readTag (if t = [] then ''name'' else t) (st1\<lparr>hasTag := True, scanner := sc4\<rparr>) = (type', v', sc5)"
    by (cases "readTag (if t = [] then ''name'' else t) (st1\<lparr>hasTag := True, scanner := sc4\<rparr>)")
  obtain closed sc6 where s7: "scan (closingTagRe st1) sc5 = (closed, sc6)"
    by (cases "scan (closingTagRe st1) sc5")
  from assms s1 s2 s3 s4 s5 s6 s7 have ne: "opened \<noteq> []" and e: "scanner st3 = sc6"
    by (auto simp: readTurn_def Let_def split: if_splits)
  have "scanner st1 = sc1" using textChars_scanner [OF s2] by simp
  with s3 ne have a: "length (tail sc2) < length (tail sc1)" by (auto dest: scan_tail_less)
  have b: "length (tail sc1) \<le> length (tail (scanner st))" using s1 by (rule scanUntil_tail_le)
  have c: "length (tail sc4) \<le> length (tail sc2)"
    using s4 s5 by (meson le_trans scan_tail_le)
  have d: "length (tail sc5) \<le> length (tail sc4)" using readTag_tail_le [OF s6] by simp
  have "length (tail sc6) \<le> length (tail sc5)" using s7 by (rule scan_tail_le)
  with a b c d e show ?thesis by simp
qed

lemma turn_Continue_shorter:
  assumes "turn st = Continue st'"
  shows "length (tail (scanner st')) < length (tail (scanner st))"
proof (cases "readTurn st")
  case (Tag type v start token st3)
  with assms have "afterTag type v start token st3 = Continue st'" by (simp add: turn_def)
  then have "scanner st' = scanner st3" by (rule afterTag_scanner)
  with readTurn_Tag_shorter [OF Tag] show ?thesis by simp
qed (use assms in \<open>simp_all add: turn_def\<close>)

text \<open>The \<^verbatim>\<open>while (!scanner.eos())\<close> loop.\<close>

function parseLoop :: "pstate \<Rightarrow> error + pstate" where
  "parseLoop st =
     (if eos (scanner st) then Inr st
      else (case turn st of
              Continue st' \<Rightarrow> parseLoop st'
            | Break st' \<Rightarrow> Inr st'
            | Throw e \<Rightarrow> Inl e))"
  by pat_completeness auto
termination
  by (relation "measure (\<lambda>st. length (tail (scanner st)))") (auto dest: turn_Continue_shorter)

text \<open>
  \<^verbatim>\<open>squashTokens\<close>: \<^verbatim>\<open>lastToken\<close> is the last token pushed on \<^verbatim>\<open>squashedTokens\<close> (the same
  array object), so that extending it in place extends the last element of the result.
\<close>

fun extendText :: "token \<Rightarrow> token \<Rightarrow> token" where
  "extendText (Tok ty v s e) token = Tok ty (v @ tvalue token) s (tend token)"
| "extendText (Sec ty v s e c cl) token = Sec ty (v @ tvalue token) s (tend token) c cl"
| "extendText (Par ty v s e i k l) token = Par ty (v @ tvalue token) s (tend token) i k l"

fun squashLoop :: "token option list \<Rightarrow> token list \<Rightarrow> token list" where
  "squashLoop [] squashedTokens = squashedTokens"
| "squashLoop (None # ts) squashedTokens = squashLoop ts squashedTokens"
| "squashLoop (Some token # ts) squashedTokens =
     (if ttype token = ''text'' \<and> squashedTokens \<noteq> [] \<and> ttype (last squashedTokens) = ''text''
      then squashLoop ts (butlast squashedTokens @ [extendText (last squashedTokens) token])
      else squashLoop ts (squashedTokens @ [token]))"

definition squashTokens :: "token option list \<Rightarrow> token list" where
  "squashTokens ts = squashLoop ts []"

text \<open>
  \<^verbatim>\<open>nestTokens\<close>. The source keeps a stack of the open section tokens and a pointer
  \<^verbatim>\<open>collector\<close> to the array that receives the next token: the children of the innermost
  open section, or \<^verbatim>\<open>nestedTokens\<close>. The model keeps, for each open section, the section
  token and the tokens collected before it at its own level; \<open>collector\<close> holds the tokens
  collected at the current level. Closing a section puts it, with its children and the
  start of the closing tag, behind the tokens of the level below. A closing tag with no
  open section makes the source write to \<^verbatim>\<open>undefined[5]\<close>, a TypeError. What is still
  open at the end stays in the result with \<^verbatim>\<open>token[5]\<close> undefined.
\<close>

fun setChildren :: "token \<Rightarrow> token list \<Rightarrow> nat option \<Rightarrow> token" where
  "setChildren (Tok ty v s e) c cl = Sec ty v s e c cl"
| "setChildren (Sec ty v s e _ _) c cl = Sec ty v s e c cl"
| "setChildren (Par ty v s e i k l) c cl = Sec ty v s e c cl"

fun nestLoop :: "token list \<Rightarrow> (token \<times> token list) list \<Rightarrow> token list \<Rightarrow> error + token list" where
  "nestLoop [] [] collector = Inr collector"
| "nestLoop [] ((sect, outer) # stack) collector =
     nestLoop [] stack (outer @ [setChildren sect collector None])"
| "nestLoop (token # ts) stack collector =
     (if ttype token = ''#'' \<or> ttype token = ''^''
      then nestLoop ts ((token, collector) # stack) []
      else if ttype token = ''/''
      then (case stack of
              [] \<Rightarrow> Inl TypeError
            | (sect, outer) # below \<Rightarrow>
                nestLoop ts below (outer @ [setChildren sect collector (Some (tstart token))]))
      else nestLoop ts stack (collector @ [token]))"

definition nestTokens :: "token list \<Rightarrow> error + token list" where
  "nestTokens ts = nestLoop ts [] []"

text \<open>\<^verbatim>\<open>mustache.tags\<close>, as \<^verbatim>\<open>index.js\<close> sets it.\<close>

definition mustache_tags :: "string list" where
  "mustache_tags = [''{{'', ''}}'']"

definition initial :: "string \<Rightarrow> pstate" where
  "initial template =
     \<lparr>scanner = Scanner template, lineHasNonSpace = False, sections = [], tokens = [],
      spaces = [], hasTag = False, nonSpace = False, indentation = [], tagIndex = 0,
      openingTagRe = AnySpace, closingTagRe = AnySpace, closingCurlyRe = AnySpace\<rparr>"

text \<open>
  \<^verbatim>\<open>parseTemplate(template, tags)\<close>; \<open>tags\<close> is \<open>None\<close> when the argument is omitted. The
  scanner is created after \<^verbatim>\<open>compileTags\<close> has run, which does not read it.
  \<open>startState\<close> is the state before the loop, \<open>scanTemplate\<close> the state after the last
  \<^verbatim>\<open>stripSpace()\<close>.
\<close>

definition startState :: "string \<Rightarrow> string list option \<Rightarrow> error + pstate" where
  "startState template tags =
     compileTags (TagsArray (case tags of None \<Rightarrow> mustache_tags | Some t \<Rightarrow> t)) (initial template)"

definition scanTemplate :: "string \<Rightarrow> string list option \<Rightarrow> error + pstate" where
  "scanTemplate template tags =
     (case startState template tags of
        Inl e \<Rightarrow> Inl e
      | Inr st0 \<Rightarrow> (case parseLoop st0 of Inl e \<Rightarrow> Inl e | Inr st1 \<Rightarrow> Inr (stripSpace st1)))"

definition parseTemplate :: "string \<Rightarrow> string list option \<Rightarrow> error + token list" where
  "parseTemplate template tags =
     (if template = [] then Inr []
      else (case scanTemplate template tags of
              Inl e \<Rightarrow> Inl e
            | Inr st \<Rightarrow>
                (case sections st of
                   openSection # _ \<Rightarrow> Inl (UnclosedSection (tvalue openSection) (pos (scanner st)))
                 | [] \<Rightarrow> nestTokens (squashTokens (tokens st)))))"

section \<open>Values\<close>

text \<open>
  The values of a view. A number is \<^verbatim>\<open>NaN\<close>, an infinity or an integer (numbers with a
  fraction, and what \<^verbatim>\<open>String\<close> prints with an exponent, are outside the model). An object
  is plain data, a list of its own keys and values. A function value is the index of a
  function in a table, so that a function can receive any value as its \<^verbatim>\<open>this\<close>.
\<close>

datatype jsnum = NaN | Infinity | NegInfinity | Finite int

datatype jsval =
    Undefined
  | Null
  | Bool bool
  | Num jsnum
  | Str string
  | Arr "jsval list"
  | Obj "(string \<times> jsval) list"
  | Fun nat

text \<open>
  What the call of a function value does, as far as the renderer can see: it returns a
  value, throws, or calls the \<^verbatim>\<open>subRender\<close> it was given on a template and goes on with
  the rendered text.
\<close>

datatype lambdaRun =
    Return jsval
  | Throws string
  | SubRender string "string \<Rightarrow> lambdaRun"

record lambda =
  source :: string
  call :: "jsval \<Rightarrow> string \<Rightarrow> lambdaRun"

type_synonym lambdas = "nat \<Rightarrow> lambda"

definition falsy :: "jsval \<Rightarrow> bool" where
  "falsy v =
     (case v of
        Undefined \<Rightarrow> True
      | Null \<Rightarrow> True
      | Bool b \<Rightarrow> \<not> b
      | Num n \<Rightarrow> (case n of NaN \<Rightarrow> True | Finite i \<Rightarrow> i = 0 | _ \<Rightarrow> False)
      | Str s \<Rightarrow> s = []
      | _ \<Rightarrow> False)"

text \<open>\<^verbatim>\<open>value == null\<close>\<close>

definition isNullish :: "jsval \<Rightarrow> bool" where
  "isNullish v = (case v of Undefined \<Rightarrow> True | Null \<Rightarrow> True | _ \<Rightarrow> False)"

definition isArray :: "jsval \<Rightarrow> bool" where
  "isArray v = (case v of Arr _ \<Rightarrow> True | _ \<Rightarrow> False)"

definition isFunction :: "jsval \<Rightarrow> bool" where
  "isFunction v = (case v of Fun _ \<Rightarrow> True | _ \<Rightarrow> False)"

definition typeof :: "jsval \<Rightarrow> string" where
  "typeof v =
     (case v of
        Undefined \<Rightarrow> ''undefined''
      | Null \<Rightarrow> ''object''
      | Bool _ \<Rightarrow> ''boolean''
      | Num _ \<Rightarrow> ''number''
      | Str _ \<Rightarrow> ''string''
      | Arr _ \<Rightarrow> ''object''
      | Obj _ \<Rightarrow> ''object''
      | Fun _ \<Rightarrow> ''function'')"

text \<open>\<^verbatim>\<open>String(value)\<close>, which is also what \<^verbatim>\<open>buffer += value\<close> appends.\<close>

fun natToString :: "nat \<Rightarrow> string" where
  "natToString n =
     (if n < 10 then [''0123456789'' ! n]
      else natToString (n div 10) @ [''0123456789'' ! (n mod 10)])"

declare natToString.simps [simp del]

definition numToString :: "jsnum \<Rightarrow> string" where
  "numToString n =
     (case n of
        NaN \<Rightarrow> ''NaN''
      | Infinity \<Rightarrow> ''Infinity''
      | NegInfinity \<Rightarrow> ''-Infinity''
      | Finite i \<Rightarrow> if i < 0 then ''-'' @ natToString (nat (- i)) else natToString (nat i))"

fun toString :: "lambdas \<Rightarrow> jsval \<Rightarrow> string" where
  "toString F Undefined = ''undefined''"
| "toString F Null = ''null''"
| "toString F (Bool b) = (if b then ''true'' else ''false'')"
| "toString F (Num n) = numToString n"
| "toString F (Str s) = s"
| "toString F (Arr xs) =
     join '','' (map (\<lambda>v. if isNullish v then [] else toString F v) xs)"
| "toString F (Obj kvs) = ''[object Object]''"
| "toString F (Fun k) = source (F k)"

text \<open>\<^verbatim>\<open>escapeHtml\<close> with its \<^verbatim>\<open>entityMap\<close>.\<close>

definition entityMap :: "char \<Rightarrow> string option" where
  "entityMap c =
     (if c = CHR ''&'' then Some ''&amp;''
      else if c = CHR ''<'' then Some ''&lt;''
      else if c = CHR ''>'' then Some ''&gt;''
      else if c = CHR 0x22 then Some ''&quot;''
      else if c = CHR 0x27 then Some ''&#39;''
      else if c = CHR ''/'' then Some ''&#x2F;''
      else if c = CHR 0x60 then Some ''&#x60;''
      else if c = CHR ''='' then Some ''&#x3D;''
      else None)"

definition escapeHtml :: "string \<Rightarrow> string" where
  "escapeHtml s = concat (map (\<lambda>c. case entityMap c of Some e \<Rightarrow> e | None \<Rightarrow> [c]) s)"

text \<open>
  An escape function is \<^verbatim>\<open>mustache.escape\<close> itself (which \<^verbatim>\<open>index.js\<close> sets to
  \<^verbatim>\<open>escapeHtml\<close>) or another function, which receives a value and returns a string. The
  source tells them apart by identity (\<^verbatim>\<open>escape === mustache.escape\<close>).
\<close>

datatype escapeFn = MustacheEscape | UserEscape "jsval \<Rightarrow> string"

definition isMustacheEscape :: "escapeFn \<Rightarrow> bool" where
  "isMustacheEscape e = (case e of MustacheEscape \<Rightarrow> True | UserEscape _ \<Rightarrow> False)"

definition applyEscape :: "lambdas \<Rightarrow> escapeFn \<Rightarrow> jsval \<Rightarrow> string" where
  "applyEscape F e v = (case e of MustacheEscape \<Rightarrow> escapeHtml (toString F v) | UserEscape f \<Rightarrow> f v)"

section \<open>Context\<close>

text \<open>
  Modelled from the spec: the Context (a view and an optional parent, with \<^verbatim>\<open>push\<close> and
  \<^verbatim>\<open>lookup\<close>) is used by the Writer and its code is not among the sources. The path
  \<^verbatim>\<open>.\<close> is the view. Otherwise the path is split at the dots; the first scope, from the
  current one outwards, whose view has the first segment gives the starting value; the
  other segments are resolved against that value only, and a missing one gives no value
  (\<open>Undefined\<close>). A segment is a key of an object, or \<^verbatim>\<open>length\<close> on an array or a string.
  The cache of a node does not change what \<^verbatim>\<open>lookup\<close> returns and is left out.
\<close>

datatype contextNode = Context (view: jsval) (parent: "contextNode option")

definition push :: "contextNode \<Rightarrow> jsval \<Rightarrow> contextNode" where
  "push c v = Context v (Some c)"

definition getProp :: "jsval \<Rightarrow> string \<Rightarrow> jsval option" where
  "getProp v name =
     (case v of
        Obj kvs \<Rightarrow> map_of kvs name
      | Arr xs \<Rightarrow> if name = ''length'' then Some (Num (Finite (int (length xs)))) else None
      | Str s \<Rightarrow> if name = ''length'' then Some (Num (Finite (int (length s)))) else None
      | _ \<Rightarrow> None)"

fun resolvePath :: "jsval \<Rightarrow> string list \<Rightarrow> jsval" where
  "resolvePath v [] = v"
| "resolvePath v (name # names) =
     (case getProp v name of None \<Rightarrow> Undefined | Some v' \<Rightarrow> resolvePath v' names)"

fun lookupFrom :: "contextNode \<Rightarrow> string list \<Rightarrow> jsval" where
  "lookupFrom c [] = Undefined"
| "lookupFrom (Context v p) (name # names) =
     (case getProp v name of
        Some v' \<Rightarrow> resolvePath v' names
      | None \<Rightarrow> (case p of None \<Rightarrow> Undefined | Some c' \<Rightarrow> lookupFrom c' (name # names)))"

definition lookup :: "contextNode \<Rightarrow> string \<Rightarrow> jsval" where
  "lookup c path = (if path = ''.'' then view c else lookupFrom c (splitChar CHR ''.'' path))"

section \<open>Writer\<close>

text \<open>
  The state of a Writer is its \<^verbatim>\<open>templateCache\<close>: the default cache object, a table from
  keys to token arrays, or \<open>None\<close> when the cache has been set to \<^verbatim>\<open>undefined\<close>.
\<close>

record writer =
  templateCache :: "(string \<rightharpoonup> token list) option"

definition Writer :: writer where
  "Writer = \<lparr>templateCache = Some Map.empty\<rparr>"

definition clearCache :: "writer \<Rightarrow> writer" where
  "clearCache w = (case templateCache w of None \<Rightarrow> w | Some _ \<Rightarrow> w\<lparr>templateCache := Some Map.empty\<rparr>)"

text \<open>\<^verbatim>\<open>template + ':' + (tags || mustache.tags).join(':')\<close>\<close>

definition cacheKey :: "string \<Rightarrow> string list option \<Rightarrow> string" where
  "cacheKey template tags =
     template @ '':'' @ join '':'' (case tags of None \<Rightarrow> mustache_tags | Some t \<Rightarrow> t)"

text \<open>\<^verbatim>\<open>Writer.prototype.parse\<close>: the tokens (or the error thrown) and the Writer afterwards.\<close>

definition parse :: "writer \<Rightarrow> string \<Rightarrow> string list option \<Rightarrow> (error + token list) \<times> writer" where
  "parse w template tags =
     (let cache = templateCache w;
          key = cacheKey template tags;
          cached = (case cache of Some c \<Rightarrow> c key | None \<Rightarrow> None)
      in case cached of
           Some ts \<Rightarrow> (Inr ts, w)
         | None \<Rightarrow>
             (case parseTemplate template tags of
                Inl e \<Rightarrow> (Inl e, w)
              | Inr ts \<Rightarrow>
                  (Inr ts, case cache of
                             Some c \<Rightarrow> w\<lparr>templateCache := Some (c(key \<mapsto> ts))\<rparr>
                           | None \<Rightarrow> w)))"

text \<open>
  The \<^verbatim>\<open>config\<close> argument is an array of tags or an object with the optional attributes
  \<^verbatim>\<open>tags\<close> and \<^verbatim>\<open>escape\<close>; the \<^verbatim>\<open>partials\<close> argument is an object or a function.
\<close>

datatype config = ConfigArray "string list" | ConfigObject "string list option" "escapeFn option"

datatype partials = PartialsObject "string \<rightharpoonup> string" | PartialsFunction "string \<Rightarrow> string option"

datatype viewArg = View jsval | ViewContext contextNode

definition getConfigTags :: "config option \<Rightarrow> string list option" where
  "getConfigTags cfg =
     (case cfg of
        Some (ConfigArray a) \<Rightarrow> Some a
      | Some (ConfigObject t e) \<Rightarrow> t
      | None \<Rightarrow> None)"

definition getConfigEscape :: "config option \<Rightarrow> escapeFn option" where
  "getConfigEscape cfg =
     (case cfg of
        Some (ConfigObject t e) \<Rightarrow> e
      | _ \<Rightarrow> None)"

definition indentPartial :: "string \<Rightarrow> string \<Rightarrow> bool \<Rightarrow> string" where
  "indentPartial partial indent hasNonSpace =
     (let filteredIndentation = filter (\<lambda>c. c = CHR '' '' \<or> c = CHR 0x09) indent;
          partialByNl = splitChar CHR 0x0A partial
      in join [CHR 0x0A]
           (map (\<lambda>(i, line). if line \<noteq> [] \<and> (i > 0 \<or> \<not> hasNonSpace)
                              then filteredIndentation @ line else line)
                (enumerate 0 partialByNl)))"

text \<open>The local \<^verbatim>\<open>indentedValue\<close> of \<^verbatim>\<open>renderPartial\<close>.\<close>

definition indentedValue :: "string \<Rightarrow> string \<Rightarrow> nat \<Rightarrow> bool \<Rightarrow> string" where
  "indentedValue v indent tagIdx hasNonSpace =
     (if tagIdx = 0 \<and> indent \<noteq> [] then indentPartial v indent hasNonSpace else v)"

definition unescapedValue :: "token \<Rightarrow> contextNode \<Rightarrow> jsval option" where
  "unescapedValue token c =
     (let v = lookup c (tvalue token) in if \<not> isNullish v then Some v else None)"

definition escapedValue :: "lambdas \<Rightarrow> token \<Rightarrow> contextNode \<Rightarrow> config option \<Rightarrow> string option" where
  "escapedValue F token c cfg =
     (let escape = (case getConfigEscape cfg of Some f \<Rightarrow> f | None \<Rightarrow> MustacheEscape);
          v = lookup c (tvalue token)
      in if \<not> isNullish v
         then Some (if typeof v = ''number'' \<and> isMustacheEscape escape then toString F v
                    else applyEscape F escape v)
         else None)"

definition rawValue :: "token \<Rightarrow> string" where
  "rawValue token = tvalue token"

definition resolvePartial :: "partials \<Rightarrow> string \<Rightarrow> string option" where
  "resolvePartial ps name = (case ps of PartialsFunction f \<Rightarrow> f name | PartialsObject m \<Rightarrow> m name)"

text \<open>
  The call of a function value: every \<^verbatim>\<open>subRender(template)\<close> it makes is answered by
  \<open>sub\<close>, and an error of \<open>sub\<close> ends the call.
\<close>

primrec runLambda ::
  "lambdaRun \<Rightarrow> (writer \<Rightarrow> string \<Rightarrow> (error + string) \<times> writer) \<Rightarrow> writer \<Rightarrow> (error + jsval) \<times> writer" where
  "runLambda (Return v) sub w = (Inr v, w)"
| "runLambda (Throws m) sub w = (Inl (Thrown m), w)"
| "runLambda (SubRender template k) sub w =
     (case sub w template of
        (Inl e, w') \<Rightarrow> (Inl e, w')
      | (Inr text, w') \<Rightarrow> runLambda (k text) sub w')"

text \<open>
  The rendering functions. \<open>n\<close> bounds how deep partials and the templates that function
  values pass to \<^verbatim>\<open>subRender\<close> may nest: where the source would recurse deeper, it
  overflows its call stack, a RangeError. Every function returns what the source returns
  (\<open>None\<close> is \<^verbatim>\<open>undefined\<close>) or the error thrown, and the Writer afterwards. The \<^verbatim>\<open>buffer\<close>
  of \<^verbatim>\<open>renderTokens\<close> is what the tokens before the current one have appended. A section
  or partial token of another shape than \<^verbatim>\<open>nestTokens\<close> and \<^verbatim>\<open>parseTemplate\<close> build has
  no children or indentation to read: the source then reads a property of
  \<^verbatim>\<open>undefined\<close>, a TypeError.
\<close>

function (sequential)
  renderTokens ::
    "lambdas \<Rightarrow> nat \<Rightarrow> writer \<Rightarrow> token list \<Rightarrow> contextNode \<Rightarrow> partials option \<Rightarrow> string option \<Rightarrow>
     config option \<Rightarrow> (error + string) \<times> writer"
and renderSection ::
    "lambdas \<Rightarrow> nat \<Rightarrow> writer \<Rightarrow> token \<Rightarrow> contextNode \<Rightarrow> partials option \<Rightarrow> string option \<Rightarrow>
     config option \<Rightarrow> (error + string option) \<times> writer"
and renderEach ::
    "lambdas \<Rightarrow> nat \<Rightarrow> writer \<Rightarrow> token list \<Rightarrow> jsval list \<Rightarrow> contextNode \<Rightarrow> partials option \<Rightarrow>
     string option \<Rightarrow> config option \<Rightarrow> (error + string) \<times> writer"
and renderInverted ::
    "lambdas \<Rightarrow> nat \<Rightarrow> writer \<Rightarrow> token \<Rightarrow> contextNode \<Rightarrow> partials option \<Rightarrow> string option \<Rightarrow>
     config option \<Rightarrow> (error + string option) \<times> writer"
and renderPartial ::
    "lambdas \<Rightarrow> nat \<Rightarrow> writer \<Rightarrow> token \<Rightarrow> contextNode \<Rightarrow> partials option \<Rightarrow>
     config option \<Rightarrow> (error + string option) \<times> writer"
and subRender ::
    "lambdas \<Rightarrow> nat \<Rightarrow> writer \<Rightarrow> string \<Rightarrow> contextNode \<Rightarrow> partials option \<Rightarrow>
     config option \<Rightarrow> (error + string) \<times> writer"
and render ::
    "lambdas \<Rightarrow> nat \<Rightarrow> writer \<Rightarrow> string \<Rightarrow> viewArg \<Rightarrow> partials option \<Rightarrow>
     config option \<Rightarrow> (error + string) \<times> writer"
where
  "renderTokens F n w [] c ps ot cfg = (Inr [], w)"
| "renderTokens F n w (token # rest) c ps ot cfg =
     (let symbol = ttype token;
          (r, w1) =
            (if symbol = ''#'' then renderSection F n w token c ps ot cfg
             else if symbol = ''^'' then renderInverted F n w token c ps ot cfg
             else if symbol = ''>'' then renderPartial F n w token c ps cfg
             else if symbol = ''&'' then (Inr (map_option (toString F) (unescapedValue token c)), w)
             else if symbol = ''name'' then (Inr (escapedValue F token c cfg), w)
             else if symbol = ''text'' then (Inr (Some (rawValue token)), w)
             else (Inr None, w))
      in case r of
           Inl e \<Rightarrow> (Inl e, w1)
         | Inr v \<Rightarrow>
             (case renderTokens F n w1 rest c ps ot cfg of
                (Inl e, w2) \<Rightarrow> (Inl e, w2)
              | (Inr out, w2) \<Rightarrow> (Inr ((case v of None \<Rightarrow> [] | Some a \<Rightarrow> a) @ out), w2)))"
| "renderSection F n w (Sec ty name s e children cl) c ps ot cfg =
     (let v = lookup c name
      in if falsy v then (Inr None, w)
         else if isArray v
         then (case renderEach F n w children (case v of Arr xs \<Rightarrow> xs | _ \<Rightarrow> []) c ps ot cfg of
                 (Inl err, w1) \<Rightarrow> (Inl err, w1)
               | (Inr out, w1) \<Rightarrow> (Inr (Some out), w1))
         else if typeof v = ''object'' \<or> typeof v = ''string'' \<or> typeof v = ''number''
         then (case renderTokens F n w children (push c v) ps ot cfg of
                 (Inl err, w1) \<Rightarrow> (Inl err, w1)
               | (Inr out, w1) \<Rightarrow> (Inr (Some out), w1))
         else if isFunction v
         then (case ot of
                 None \<Rightarrow> (Inl NoOriginalTemplate, w)
               | Some originalTemplate \<Rightarrow>
                   (case runLambda
                           (call (F (case v of Fun k \<Rightarrow> k | _ \<Rightarrow> 0)) (view c)
                              (slice originalTemplate e cl))
                           (\<lambda>w' template. subRender F n w' template c ps cfg)
                           w of
                      (Inl err, w1) \<Rightarrow> (Inl err, w1)
                    | (Inr r, w1) \<Rightarrow>
                        (Inr (Some (if \<not> isNullish r then toString F r else [])), w1)))
         else (case renderTokens F n w children c ps ot cfg of
                 (Inl err, w1) \<Rightarrow> (Inl err, w1)
               | (Inr out, w1) \<Rightarrow> (Inr (Some out), w1)))"
| "renderSection F n w token c ps ot cfg =
     (if falsy (lookup c (tvalue token)) then (Inr None, w) else (Inl TypeError, w))"
| "renderEach F n w children [] c ps ot cfg = (Inr [], w)"
| "renderEach F n w children (x # xs) c ps ot cfg =
     (case renderTokens F n w children (push c x) ps ot cfg of
        (Inl err, w1) \<Rightarrow> (Inl err, w1)
      | (Inr out, w1) \<Rightarrow>
          (case renderEach F n w1 children xs c ps ot cfg of
             (Inl err, w2) \<Rightarrow> (Inl err, w2)
           | (Inr others, w2) \<Rightarrow> (Inr (out @ others), w2)))"
| "renderInverted F n w (Sec ty name s e children cl) c ps ot cfg =
     (let v = lookup c name
      in if falsy v \<or> (isArray v \<and> v = Arr [])
         then (case renderTokens F n w children c ps ot cfg of
                 (Inl err, w1) \<Rightarrow> (Inl err, w1)
               | (Inr out, w1) \<Rightarrow> (Inr (Some out), w1))
         else (Inr None, w))"
| "renderInverted F n w token c ps ot cfg =
     (let v = lookup c (tvalue token)
      in if falsy v \<or> (isArray v \<and> v = Arr []) then (Inl TypeError, w) else (Inr None, w))"
| "renderPartial F n w (Par ty name s e indent tagIdx hasNonSpace) c ps cfg =
     (case ps of
        None \<Rightarrow> (Inr None, w)
      | Some p \<Rightarrow>
          (let tags = getConfigTags cfg
           in case resolvePartial p name of
                None \<Rightarrow> (Inr None, w)
              | Some v \<Rightarrow>
                  (let indented = indentedValue v indent tagIdx hasNonSpace
                   in case parse w indented tags of
                        (Inl err, w1) \<Rightarrow> (Inl err, w1)
                      | (Inr toks, w1) \<Rightarrow>
                          if n = 0 then (Inl RangeError, w1)
                          else (case renderTokens F (n - 1) w1 toks c ps (Some indented) cfg of
                                  (Inl err, w2) \<Rightarrow> (Inl err, w2)
                                | (Inr out, w2) \<Rightarrow> (Inr (Some out), w2)))))"
| "renderPartial F n w token c ps cfg =
     (case ps of
        None \<Rightarrow> (Inr None, w)
      | Some p \<Rightarrow>
          (case resolvePartial p (tvalue token) of
             None \<Rightarrow> (Inr None, w)
           | Some v \<Rightarrow> (Inl TypeError, w)))"
| "subRender F n w template c ps cfg =
     (if n = 0 then (Inl RangeError, w)
      else render F (n - 1) w template (ViewContext c) ps cfg)"
| "render F n w template v ps cfg =
     (let tags = getConfigTags cfg
      in case parse w template tags of
           (Inl err, w1) \<Rightarrow> (Inl err, w1)
         | (Inr toks, w1) \<Rightarrow>
             (let c = (case v of ViewContext c' \<Rightarrow> c' | View x \<Rightarrow> Context x None)
              in renderTokens F n w1 toks c ps (Some template) cfg))"
  by pat_completeness auto

termination
  by (relation "inv_image (less_than <*lex*> less_than <*lex*> less_than <*lex*> less_than)
       (\<lambda>x. case x of
          Inl a \<Rightarrow> (case a of
             Inl (F, n, w, ts, r) \<Rightarrow> (n, 0::nat, size_list size ts, 0::nat)
           | Inr b \<Rightarrow> (case b of
                Inl (F, n, w, t, r) \<Rightarrow> (n, 0, size t, 0)
              | Inr (F, n, w, ts, xs, r) \<Rightarrow> (n, 0, size_list size ts, Suc (length xs))))
        | Inr a \<Rightarrow> (case a of
             Inl b \<Rightarrow> (case b of
                Inl (F, n, w, t, r) \<Rightarrow> (n, 0, size t, 0)
              | Inr (F, n, w, t, r) \<Rightarrow> (n, 0, size t, 0))
           | Inr b \<Rightarrow> (case b of
                Inl (F, n, r) \<Rightarrow> (n, 0, 0, 0)
              | Inr (F, n, r) \<Rightarrow> (n, 1, 0, 0))))")
     auto

declare render.simps [simp del] subRender.simps [simp del]


section \<open>Definitions for the properties\<close>

text \<open>\<open>appended a r\<close>: the outcome \<open>r\<close> of rendering the tokens that follow, with \<open>a\<close> in front of
  their output; an error stays the error.\<close>

definition appended :: "string \<Rightarrow> (error + string) \<times> writer \<Rightarrow> (error + string) \<times> writer" where
  "appended a r = (case r of (Inl e, w) \<Rightarrow> (Inl e, w) | (Inr out, w) \<Rightarrow> (Inr (a @ out), w))"

text \<open>A table of function values for the examples: every function returns \<^verbatim>\<open>undefined\<close>.\<close>

definition noLambdas :: lambdas where
  "noLambdas = (\<lambda>k. \<lparr>source = [], call = (\<lambda>this text. Return Undefined)\<rparr>)"

text \<open>A table of function values for the examples: every function returns the text it is given.\<close>

definition echoLambdas :: lambdas where
  "echoLambdas = (\<lambda>k. \<lparr>source = [], call = (\<lambda>this text. Return (Str text))\<rparr>)"

text \<open>\<open>balancedFrom d ts\<close>: with \<open>d\<close> sections open, every closing tag of \<open>ts\<close> closes an open
  section and no section is open after \<open>ts\<close>.\<close>

fun balancedFrom :: "nat \<Rightarrow> token list \<Rightarrow> bool" where
  "balancedFrom d [] = (d = 0)"
| "balancedFrom d (t # ts) =
     (if ttype t = ''#'' \<or> ttype t = ''^'' then balancedFrom (Suc d) ts
      else if ttype t = ''/'' then 0 < d \<and> balancedFrom (d - 1) ts
      else balancedFrom d ts)"

text \<open>
  The rewriting of a partial in the words of the specification: \<open>pre\<close> is put in front of
  every line of \<open>v\<close> that is not empty, in front of the first line only when the line of
  the partial tag had no other content before the tag.
\<close>

definition prefixLines :: "string \<Rightarrow> bool \<Rightarrow> string \<Rightarrow> string" where
  "prefixLines pre hasNonSpace v =
     join [CHR 0x0A]
       (map (\<lambda>(i, line). if line \<noteq> [] \<and> (0 < i \<or> \<not> hasNonSpace) then pre @ line else line)
            (enumerate 0 (splitChar CHR 0x0A v)))"

text \<open>
  The specification of the stripping, on the sequence of tokens as scanned, none deleted
  (\<open>raw\<close>): every character of text is a token of its own, and a line ends with the text
  token of a newline. A tag is a block tag (section, inverted section, closing tag,
  partial, comment, change of delimiters) or a variable tag. A line is standalone when it
  has a block tag and nothing but block tags and white space; \<open>stripLine\<close> deletes the
  text tokens of a standalone line (\<open>None\<close> is the hole that \<^verbatim>\<open>delete\<close> leaves) and keeps
  every token of another line. \<open>tiles T p raw q\<close>: the tokens \<open>raw\<close> follow each other
  without a gap from offset \<open>p\<close> to offset \<open>q\<close>, and each text token is the character of
  the template \<open>T\<close> at its offset.
\<close>

definition isNewline :: "token \<Rightarrow> bool" where
  "isNewline t = (ttype t = ''text'' \<and> tvalue t = [CHR 0x0A])"

definition blockTag :: "token \<Rightarrow> bool" where
  "blockTag t = (ttype t \<in> {''#'', ''^'', ''/'', ''>'', ''!'', ''=''})"


definition standalone :: "token list \<Rightarrow> bool" where
  "standalone line =
     ((\<exists>t \<in> set line. blockTag t) \<and>
      (\<forall>t \<in> set line. if ttype t = ''text'' then isWhitespace (tvalue t) else blockTag t))"

definition stripLine :: "token list \<Rightarrow> token option list" where
  "stripLine line =
     (if standalone line then map (\<lambda>t. if ttype t = ''text'' then None else Some t) line
      else map Some line)"

fun linesOf :: "token list \<Rightarrow> token list list" where
  "linesOf [] = [[]]"
| "linesOf (t # ts) =
     (if isNewline t then [t] # linesOf ts
      else (case linesOf ts of [] \<Rightarrow> [[t]] | l # ls \<Rightarrow> (t # l) # ls))"

definition stripStandalone :: "token list \<Rightarrow> token option list" where
  "stripStandalone raw = concat (map stripLine (linesOf raw))"














section \<open>Properties of the renderer\<close>

lemma appended_Nil [simp]: "appended [] r = r"
  by (simp add: appended_def split: prod.splits sum.splits)

lemma appended_appended [simp]: "appended a (appended b r) = appended (a @ b) r"
  by (simp add: appended_def split: prod.splits sum.splits)

lemma renderTokens_Cons:
  "renderTokens F n w (t # rest) c ps ot cfg =
     (case renderTokens F n w [t] c ps ot cfg of
        (Inl e, w1) \<Rightarrow> (Inl e, w1)
      | (Inr a, w1) \<Rightarrow> appended a (renderTokens F n w1 rest c ps ot cfg))"
  by (simp add: Let_def appended_def split: prod.splits sum.splits option.splits)

lemma renderTokens_append:
  "renderTokens F n w (xs @ ys) c ps ot cfg =
     (case renderTokens F n w xs c ps ot cfg of
        (Inl e, w1) \<Rightarrow> (Inl e, w1)
      | (Inr a, w1) \<Rightarrow> appended a (renderTokens F n w1 ys c ps ot cfg))"
proof (induction xs arbitrary: w)
  case Nil
  show ?case by simp
next
  case (Cons t xs)
  show ?case
    apply (simp only: append_Cons)
    apply (subst renderTokens_Cons)
    apply (subst (2) renderTokens_Cons)
    apply (simp add: Cons.IH split: prod.splits sum.splits)
    apply (auto simp: appended_def split: prod.splits sum.splits)
    done
qed



lemma renderTokens_head:
  assumes "renderTokens F n w [token] c ps ot cfg = (Inr a, w1)"
  shows "renderTokens F n w (token # rest) c ps ot cfg = appended a (renderTokens F n w1 rest c ps ot cfg)"
  by (subst renderTokens_Cons) (simp only: assms, simp)



text \<open>
  C7. When a name resolves to the empty sequence, a section of that name appends nothing,
  and the inverted section of that name renders its children against the current
  context: it renders as its children would in its place.
\<close>

theorem empty_sequence_section:
  assumes "lookup c name = Arr []"
  shows "renderTokens F n w (Sec ''#'' name s e children cl # rest) c ps ot cfg =
           renderTokens F n w rest c ps ot cfg
       \<and> renderTokens F n w (Sec ''^'' name s e children cl # rest) c ps ot cfg =
           renderTokens F n w (children @ rest) c ps ot cfg"
proof -
  have f: "\<not> falsy (Arr [])" "isArray (Arr [])" by (simp_all add: falsy_def isArray_def)
  have a: "renderTokens F n w [Sec ''#'' name s e children cl] c ps ot cfg = (Inr [], w)"
    using assms f by (simp add: Let_def)
  have b: "renderTokens F n w [Sec ''^'' name s e children cl] c ps ot cfg =
           renderTokens F n w children c ps ot cfg"
    using assms f by (simp add: Let_def split: prod.splits sum.splits)
  have "renderTokens F n w (Sec ''^'' name s e children cl # rest) c ps ot cfg =
           renderTokens F n w (children @ rest) c ps ot cfg"
    by (subst renderTokens_Cons) (simp only: b renderTokens_append)
  with renderTokens_head [OF a] show ?thesis by simp
qed

theorem empty_sequence_section_witness:
  "lookup (Context (Obj [(''xs'', Arr []), (''y'', Str ''v'')]) None) ''xs'' = Arr []
   \<and> fst (renderTokens noLambdas 0 Writer
          [Sec ''#'' ''xs'' 0 7 [Tok ''text'' ''a'' 7 8] (Some 8), Tok ''text'' ''b'' 15 16]
          (Context (Obj [(''xs'', Arr []), (''y'', Str ''v'')]) None) None None None) = Inr ''b''
   \<and> fst (renderTokens noLambdas 0 Writer
          [Sec ''^'' ''xs'' 0 7 [Tok ''name'' ''y'' 7 12] (Some 12), Tok ''text'' ''b'' 19 20]
          (Context (Obj [(''xs'', Arr []), (''y'', Str ''v'')]) None) None None None) = Inr ''vb''"
proof -
  have h: "lookup (Context (Obj [(''xs'', Arr []), (''y'', Str ''v'')]) None) ''xs'' = Arr []"
    by code_simp
  have r1: "fst (renderTokens noLambdas 0 Writer [Tok ''text'' ''b'' 15 16]
          (Context (Obj [(''xs'', Arr []), (''y'', Str ''v'')]) None) None None None) = Inr ''b''"
    by code_simp
  have r2: "fst (renderTokens noLambdas 0 Writer ([Tok ''name'' ''y'' 7 12] @ [Tok ''text'' ''b'' 19 20])
          (Context (Obj [(''xs'', Arr []), (''y'', Str ''v'')]) None) None None None) = Inr ''vb''"
    by code_simp
  show ?thesis
    using h r1 r2
      empty_sequence_section [OF h, of noLambdas 0 Writer 0 7 "[Tok ''text'' ''a'' 7 8]" "Some 8"
        "[Tok ''text'' ''b'' 15 16]" None None None]
      empty_sequence_section [OF h, of noLambdas 0 Writer 0 7 "[Tok ''name'' ''y'' 7 12]" "Some 12"
        "[Tok ''text'' ''b'' 19 20]" None None None]
    by simp
qed

text \<open>
  C8. A section whose value is truthy and is not a sequence, an object, a string, a number
  or a function (the boolean \<^verbatim>\<open>true\<close>) renders its children against the context it was
  given: no scope is pushed. In the example the children print \<^verbatim>\<open>.\<close>, the view of the
  current scope, and the outer object is printed, not \<^verbatim>\<open>true\<close>.
\<close>

theorem other_truthy_section:
  assumes "lookup c name = v" and "\<not> falsy v" and "\<not> isArray v"
    and "typeof v \<noteq> ''object''" and "typeof v \<noteq> ''string''" and "typeof v \<noteq> ''number''"
    and "\<not> isFunction v"
  shows "renderTokens F n w (Sec ''#'' name s e children cl # rest) c ps ot cfg =
           renderTokens F n w (children @ rest) c ps ot cfg"
proof -
  have b: "renderTokens F n w [Sec ''#'' name s e children cl] c ps ot cfg =
           renderTokens F n w children c ps ot cfg"
    using assms by (simp add: Let_def split: prod.splits sum.splits)
  show ?thesis
    by (subst renderTokens_Cons) (simp only: b renderTokens_append)
qed

theorem other_truthy_section_witness:
  "lookup (Context (Obj [(''t'', Bool True)]) None) ''t'' = Bool True
   \<and> \<not> falsy (Bool True) \<and> \<not> isArray (Bool True) \<and> typeof (Bool True) = ''boolean''
   \<and> \<not> isFunction (Bool True)
   \<and> fst (renderTokens noLambdas 0 Writer
          [Sec ''#'' ''t'' 0 6 [Tok ''text'' ''['' 6 7, Tok ''name'' ''.'' 7 12, Tok ''text'' '']'' 12 13] (Some 13)]
          (Context (Obj [(''t'', Bool True)]) None) None None None) = Inr ''[[object Object]]''"
proof -
  have h: "lookup (Context (Obj [(''t'', Bool True)]) None) ''t'' = Bool True"
    "\<not> falsy (Bool True)" "\<not> isArray (Bool True)" "typeof (Bool True) = ''boolean''"
    "\<not> isFunction (Bool True)"
    by code_simp+
  have r: "fst (renderTokens noLambdas 0 Writer
          ([Tok ''text'' ''['' 6 7, Tok ''name'' ''.'' 7 12, Tok ''text'' '']'' 12 13] @ [])
          (Context (Obj [(''t'', Bool True)]) None) None None None) = Inr ''[[object Object]]''"
    by code_simp
  show ?thesis
    using h r other_truthy_section [of "Context (Obj [(''t'', Bool True)]) None" "''t''" "Bool True"
        noLambdas 0 Writer 0 6 "[Tok ''text'' ''['' 6 7, Tok ''name'' ''.'' 7 12, Tok ''text'' '']'' 12 13]"
        "Some 13" "[]" None None None]
    by simp
qed





text \<open>
  C5. An escaped variable token (\<^verbatim>\<open>name\<close>) whose value is a number: with the default
  escape function (no \<^verbatim>\<open>escape\<close> in the configuration, or \<^verbatim>\<open>mustache.escape\<close> itself
  there) the renderer appends \<^verbatim>\<open>String(value)\<close> and does not call the escape function;
  with any other escape function \<open>f\<close> it appends \<open>f\<close> applied to the value itself, the
  number and not its string.
\<close>

theorem numeric_name_token:
  assumes "ttype token = ''name''" and "lookup c (tvalue token) = Num x"
  shows "(getConfigEscape cfg = None \<or> getConfigEscape cfg = Some MustacheEscape \<longrightarrow>
            renderTokens F n w (token # rest) c ps ot cfg =
              appended (numToString x) (renderTokens F n w rest c ps ot cfg))
       \<and> (\<forall>f. getConfigEscape cfg = Some (UserEscape f) \<longrightarrow>
            renderTokens F n w (token # rest) c ps ot cfg =
              appended (f (Num x)) (renderTokens F n w rest c ps ot cfg))"
proof -
  have a: "getConfigEscape cfg = None \<or> getConfigEscape cfg = Some MustacheEscape \<Longrightarrow>
      renderTokens F n w [token] c ps ot cfg = (Inr (numToString x), w)"
    using assms
    by (auto simp: Let_def escapedValue_def isNullish_def typeof_def isMustacheEscape_def)
  have b: "\<And>f. getConfigEscape cfg = Some (UserEscape f) \<Longrightarrow>
      renderTokens F n w [token] c ps ot cfg = (Inr (f (Num x)), w)"
    using assms
    by (auto simp: Let_def escapedValue_def isNullish_def typeof_def isMustacheEscape_def
        applyEscape_def)
  show ?thesis
    using renderTokens_head [OF a] renderTokens_head [OF b] by blast
qed

theorem numeric_name_token_witness:
  "lookup (Context (Obj [(''n'', Num (Finite 42))]) None) ''n'' = Num (Finite 42)
   \<and> fst (renderTokens noLambdas 0 Writer [Tok ''name'' ''n'' 0 5, Tok ''text'' ''!'' 5 6]
        (Context (Obj [(''n'', Num (Finite 42))]) None) None None None) = Inr ''42!''
   \<and> fst (renderTokens noLambdas 0 Writer [Tok ''name'' ''n'' 0 5, Tok ''text'' ''!'' 5 6]
        (Context (Obj [(''n'', Num (Finite 42))]) None) None None
        (Some (ConfigObject None
           (Some (UserEscape (\<lambda>v. if typeof v = ''number'' then ''<raw number>'' else ''<other>'')))))) =
       Inr ''<raw number>!''"
proof -
  have h: "lookup (Context (Obj [(''n'', Num (Finite 42))]) None) ''n'' = Num (Finite 42)"
    by code_simp
  have e: "getConfigEscape None = None"
    "getConfigEscape (Some (ConfigObject None
           (Some (UserEscape (\<lambda>v. if typeof v = ''number'' then ''<raw number>'' else ''<other>''))))) =
     Some (UserEscape (\<lambda>v. if typeof v = ''number'' then ''<raw number>'' else ''<other>''))"
    by (simp_all add: getConfigEscape_def)
  have s: "numToString (Finite 42) = ''42''" by code_simp
  have t: "typeof (Num (Finite 42)) = ''number''" by code_simp
  have r: "\<And>cfg. fst (renderTokens noLambdas 0 Writer [Tok ''text'' ''!'' 5 6]
        (Context (Obj [(''n'', Num (Finite 42))]) None) None None cfg) = Inr ''!''"
    by (simp add: Let_def rawValue_def)
  have r': "\<And>cfg. renderTokens noLambdas 0 Writer [Tok ''text'' ''!'' 5 6]
        (Context (Obj [(''n'', Num (Finite 42))]) None) None None cfg = (Inr ''!'', Writer)"
    by (simp add: Let_def rawValue_def)
  show ?thesis
    using h e s t
      numeric_name_token [of "Tok ''name'' ''n'' 0 5" "Context (Obj [(''n'', Num (Finite 42))]) None"
        "Finite 42" None noLambdas 0 Writer "[Tok ''text'' ''!'' 5 6]" None None]
      numeric_name_token [of "Tok ''name'' ''n'' 0 5" "Context (Obj [(''n'', Num (Finite 42))]) None"
        "Finite 42" "Some (ConfigObject None
           (Some (UserEscape (\<lambda>v. if typeof v = ''number'' then ''<raw number>'' else ''<other>''))))"
        noLambdas 0 Writer "[Tok ''text'' ''!'' 5 6]" None None]
    by (simp add: rawValue_def appended_def)
qed


lemma fst_appended: "fst r = Inr b \<Longrightarrow> fst (appended a r) = Inr (a @ b)"
  by (cases r) (auto simp: appended_def split: sum.splits)


lemma nestLoop_balanced:
  "balancedFrom (length frames) body \<Longrightarrow>
   \<exists>col'. \<forall>rest stack. nestLoop (body @ rest) (frames @ stack) col = nestLoop rest stack col'"
proof (induction body arbitrary: frames col)
  case Nil
  then show ?case by auto
next
  case (Cons t ts)
  show ?case
  proof (cases "ttype t = ''#'' \<or> ttype t = ''^''")
    case True
    with Cons.prems have "balancedFrom (length ((t, col) # frames)) ts" by simp
    from Cons.IH [OF this, of "[]"] True show ?thesis by simp
  next
    case False
    show ?thesis
    proof (cases "ttype t = ''/''")
      case True
      with False Cons.prems obtain sect outer below where f: "frames = (sect, outer) # below"
        and b: "balancedFrom (length below) ts"
        by (cases frames) auto
      from Cons.IH [OF b, of "outer @ [setChildren sect col (Some (tstart t))]"] False True f
      show ?thesis by simp
    next
      case c: False
      with False Cons.prems have "balancedFrom (length frames) ts" by simp
      from Cons.IH [OF this, of "col @ [t]"] False c show ?thesis by simp
    qed
  qed
qed

lemma nest_section:
  assumes "ttype opening = ''#'' \<or> ttype opening = ''^''" and "ttype closing = ''/''"
    and "balancedFrom 0 body"
  shows "\<exists>kids. nestTokens body = Inr kids \<and>
           (\<forall>rest stack col.
              nestLoop (opening # body @ closing # rest) stack col =
                nestLoop rest stack (col @ [setChildren opening kids (Some (tstart closing))]))"
proof -
  from nestLoop_balanced [of "[]" body "[]"] assms(3)
  obtain kids where k: "\<And>rest stack. nestLoop (body @ rest) stack [] = nestLoop rest stack kids"
    by auto
  have "nestTokens body = Inr kids" using k [of "[]" "[]"] by (simp add: nestTokens_def)
  moreover have "nestLoop (opening # body @ closing # rest) stack col =
      nestLoop rest stack (col @ [setChildren opening kids (Some (tstart closing))])" for rest stack col
    using assms(1,2) k [of "closing # rest" "(opening, col) # stack"] by auto
  ultimately show ?thesis by blast
qed

text \<open>
  C3. A section token whose value is a function: the renderer calls the function with
  \<^verbatim>\<open>this\<close> the view of the current context and first argument
  \<^verbatim>\<open>originalTemplate.slice(token[3], token[5])\<close>, and appends what the call returns as it
  is. And \<^verbatim>\<open>nestTokens\<close> makes of an opening tag \<^verbatim>\<open>[type, name, s, e]\<close>, the tokens up to
  the closing tag that closes it, and that closing tag, the section token with the same
  \<open>e\<close>, the end of the opening tag, as \<^verbatim>\<open>token[3]\<close> and the start of the closing tag as
  \<^verbatim>\<open>token[5]\<close>: the argument is the text of the template between the two tags, as it
  stands in the source. In the example the tokens are those of \<^verbatim>\<open>parseTemplate\<close>, the
  function returns its argument, and the output shows the tag \<^verbatim>\<open>{{x}}\<close> neither rendered
  nor escaped.
\<close>

theorem lambda_receives_section_source:
  assumes "lookup c name = Fun k"
  shows "renderTokens F n w (Sec ''#'' name s e children cl # rest) c ps (Some template) cfg =
     (case runLambda (call (F k) (view c) (slice template e cl))
             (\<lambda>w' t. subRender F n w' t c ps cfg) w of
        (Inl err, w1) \<Rightarrow> (Inl err, w1)
      | (Inr r, w1) \<Rightarrow>
          appended (if isNullish r then [] else toString F r)
            (renderTokens F n w1 rest c ps (Some template) cfg))
   \<and> ((ty = ''#'' \<or> ty = ''^'') \<and> ttype closing = ''/'' \<and> balancedFrom 0 body \<longrightarrow>
        (\<exists>kids. nestTokens body = Inr kids \<and>
           (\<forall>after stack col.
              nestLoop (Tok ty name s e # body @ closing # after) stack col =
                nestLoop after stack (col @ [Sec ty name s e kids (Some (tstart closing))]))))"
proof -
  have v: "\<not> falsy (Fun k)" "\<not> isArray (Fun k)" "typeof (Fun k) = ''function''" "isFunction (Fun k)"
    by (simp_all add: falsy_def isArray_def typeof_def isFunction_def)
  have one: "renderTokens F n w [Sec ''#'' name s e children cl] c ps (Some template) cfg =
     (case runLambda (call (F k) (view c) (slice template e cl))
             (\<lambda>w' t. subRender F n w' t c ps cfg) w of
        (Inl err, w1) \<Rightarrow> (Inl err, w1)
      | (Inr r, w1) \<Rightarrow> (Inr (if isNullish r then [] else toString F r), w1))"
    using assms v by (simp add: Let_def split: prod.splits sum.splits)
  have a: "renderTokens F n w (Sec ''#'' name s e children cl # rest) c ps (Some template) cfg =
     (case runLambda (call (F k) (view c) (slice template e cl))
             (\<lambda>w' t. subRender F n w' t c ps cfg) w of
        (Inl err, w1) \<Rightarrow> (Inl err, w1)
      | (Inr r, w1) \<Rightarrow>
          appended (if isNullish r then [] else toString F r)
            (renderTokens F n w1 rest c ps (Some template) cfg))"
    by (subst renderTokens_Cons) (simp only: one, simp split: prod.splits sum.splits)
  have b: "\<exists>kids. nestTokens body = Inr kids \<and>
           (\<forall>after stack col.
              nestLoop (Tok ty name s e # body @ closing # after) stack col =
                nestLoop after stack (col @ [Sec ty name s e kids (Some (tstart closing))]))"
    if "ty = ''#'' \<or> ty = ''^''" "ttype closing = ''/''" "balancedFrom 0 body"
    using nest_section [of "Tok ty name s e" closing body] that by simp
  from a b show ?thesis by blast
qed

theorem lambda_receives_section_source_witness:
  "lookup (Context (Obj [(''f'', Fun 0), (''x'', Str ''&'')]) None) ''f'' = Fun 0
   \<and> parseTemplate ''{{#f}} a <{{x}}> {{/f}}!'' None =
        Inr [Sec ''#'' ''f'' 0 6
               [Tok ''text'' '' a <'' 6 10, Tok ''name'' ''x'' 10 15, Tok ''text'' ''> '' 15 17]
               (Some 17),
             Tok ''text'' ''!'' 23 24]
   \<and> nestTokens (Tok ''#'' ''f'' 0 6 #
          [Tok ''text'' '' a <'' 6 10, Tok ''name'' ''x'' 10 15, Tok ''text'' ''> '' 15 17] @
          Tok ''/'' ''f'' 17 23 # [Tok ''text'' ''!'' 23 24]) =
        Inr [Sec ''#'' ''f'' 0 6
               [Tok ''text'' '' a <'' 6 10, Tok ''name'' ''x'' 10 15, Tok ''text'' ''> '' 15 17]
               (Some 17),
             Tok ''text'' ''!'' 23 24]
   \<and> fst (renderTokens echoLambdas 0 Writer
            [Sec ''#'' ''f'' 0 6
               [Tok ''text'' '' a <'' 6 10, Tok ''name'' ''x'' 10 15, Tok ''text'' ''> '' 15 17]
               (Some 17),
             Tok ''text'' ''!'' 23 24]
            (Context (Obj [(''f'', Fun 0), (''x'', Str ''&'')]) None) None
            (Some ''{{#f}} a <{{x}}> {{/f}}!'') None) = Inr '' a <{{x}}> !''"
proof -
  have h: "lookup (Context (Obj [(''f'', Fun 0), (''x'', Str ''&'')]) None) ''f'' = Fun 0"
    by code_simp
  have p: "parseTemplate ''{{#f}} a <{{x}}> {{/f}}!'' None =
        Inr [Sec ''#'' ''f'' 0 6
               [Tok ''text'' '' a <'' 6 10, Tok ''name'' ''x'' 10 15, Tok ''text'' ''> '' 15 17]
               (Some 17),
             Tok ''text'' ''!'' 23 24]"
    by code_simp
  have sl: "slice ''{{#f}} a <{{x}}> {{/f}}!'' 6 (Some 17) = '' a <{{x}}> ''"
    by code_simp
  have r: "fst (renderTokens echoLambdas 0 Writer [Tok ''text'' ''!'' 23 24]
            (Context (Obj [(''f'', Fun 0), (''x'', Str ''&'')]) None) None
            (Some ''{{#f}} a <{{x}}> {{/f}}!'') None) = Inr ''!''"
    by code_simp
  have b: "balancedFrom 0 [Tok ''text'' '' a <'' 6 10, Tok ''name'' ''x'' 10 15, Tok ''text'' ''> '' 15 17]"
    by simp
  have y: "''#'' = ''#'' \<or> ''#'' = ''^''" "ttype (Tok ''/'' ''f'' 17 23) = ''/''" by simp_all
  note t = lambda_receives_section_source [OF h, of echoLambdas 0 Writer 0 6
      "[Tok ''text'' '' a <'' 6 10, Tok ''name'' ''x'' 10 15, Tok ''text'' ''> '' 15 17]" "Some 17"
      "[Tok ''text'' ''!'' 23 24]" None "''{{#f}} a <{{x}}> {{/f}}!''" None "''#''"
      "Tok ''/'' ''f'' 17 23"
      "[Tok ''text'' '' a <'' 6 10, Tok ''name'' ''x'' 10 15, Tok ''text'' ''> '' 15 17]"]
  have k: "renderTokens echoLambdas 0 Writer
            (Sec ''#'' ''f'' 0 6
               [Tok ''text'' '' a <'' 6 10, Tok ''name'' ''x'' 10 15, Tok ''text'' ''> '' 15 17]
               (Some 17) # [Tok ''text'' ''!'' 23 24])
            (Context (Obj [(''f'', Fun 0), (''x'', Str ''&'')]) None) None
            (Some ''{{#f}} a <{{x}}> {{/f}}!'') None =
          appended '' a <{{x}}> '' (renderTokens echoLambdas 0 Writer [Tok ''text'' ''!'' 23 24]
            (Context (Obj [(''f'', Fun 0), (''x'', Str ''&'')]) None) None
            (Some ''{{#f}} a <{{x}}> {{/f}}!'') None)"
    by (subst t [THEN conjunct1]) (simp only: sl, simp add: echoLambdas_def isNullish_def)
  have o: "fst (renderTokens echoLambdas 0 Writer
            [Sec ''#'' ''f'' 0 6
               [Tok ''text'' '' a <'' 6 10, Tok ''name'' ''x'' 10 15, Tok ''text'' ''> '' 15 17]
               (Some 17),
             Tok ''text'' ''!'' 23 24]
            (Context (Obj [(''f'', Fun 0), (''x'', Str ''&'')]) None) None
            (Some ''{{#f}} a <{{x}}> {{/f}}!'') None) = Inr ('' a <{{x}}> '' @ ''!'')"
    by (simp only: k fst_appended [OF r])
  from t [THEN conjunct2] y b obtain kids where
    kd: "nestTokens [Tok ''text'' '' a <'' 6 10, Tok ''name'' ''x'' 10 15, Tok ''text'' ''> '' 15 17] =
           Inr kids"
    and ns: "\<And>after stack col.
       nestLoop (Tok ''#'' ''f'' 0 6 #
          [Tok ''text'' '' a <'' 6 10, Tok ''name'' ''x'' 10 15, Tok ''text'' ''> '' 15 17] @
          Tok ''/'' ''f'' 17 23 # after) stack col =
       nestLoop after stack (col @ [Sec ''#'' ''f'' 0 6 kids (Some 17)])"
    by auto
  have "nestTokens [Tok ''text'' '' a <'' 6 10, Tok ''name'' ''x'' 10 15, Tok ''text'' ''> '' 15 17] =
      Inr [Tok ''text'' '' a <'' 6 10, Tok ''name'' ''x'' 10 15, Tok ''text'' ''> '' 15 17]"
    by code_simp
  with kd have kids: "kids = [Tok ''text'' '' a <'' 6 10, Tok ''name'' ''x'' 10 15, Tok ''text'' ''> '' 15 17]"
    by simp
  have n: "nestTokens (Tok ''#'' ''f'' 0 6 #
          [Tok ''text'' '' a <'' 6 10, Tok ''name'' ''x'' 10 15, Tok ''text'' ''> '' 15 17] @
          Tok ''/'' ''f'' 17 23 # [Tok ''text'' ''!'' 23 24]) =
        Inr [Sec ''#'' ''f'' 0 6
               [Tok ''text'' '' a <'' 6 10, Tok ''name'' ''x'' 10 15, Tok ''text'' ''> '' 15 17]
               (Some 17),
             Tok ''text'' ''!'' 23 24]"
    unfolding nestTokens_def ns kids by simp
  from h p n o show ?thesis by (simp only: append.simps)
qed

lemma splitChar_not_Nil [simp]: "splitChar c s \<noteq> []"
  by (induction s) (auto split: list.splits)

lemma splitChar_free: "x \<in> set (splitChar c s) \<Longrightarrow> c \<notin> set x"
  by (induction s arbitrary: x) (auto split: list.splits if_splits)

lemma splitChar_free_id: "c \<notin> set x \<Longrightarrow> splitChar c x = [x]"
  by (induction x) auto

lemma splitChar_append:
  "c \<notin> set x \<Longrightarrow> splitChar c (x @ c # s) = x # splitChar c s"
  by (induction x) auto

lemma splitChar_join:
  "xs \<noteq> [] \<Longrightarrow> (\<And>x. x \<in> set xs \<Longrightarrow> c \<notin> set x) \<Longrightarrow> splitChar c (join [c] xs) = xs"
proof (induction xs)
  case Nil
  then show ?case by simp
next
  case (Cons x xs)
  show ?case
  proof (cases xs)
    case Nil
    with Cons.prems show ?thesis by (simp add: splitChar_free_id)
  next
    case (Cons y ys)
    with Cons.prems Cons.IH have "splitChar c (join [c] xs) = xs" by simp
    with Cons Cons.prems show ?thesis by (simp add: splitChar_append)
  qed
qed

lemma prefixed_free:
  assumes "\<forall>x \<in> set xs. c \<notin> set x" and "c \<notin> set pre"
  shows "\<forall>y \<in> set (map (\<lambda>(i, line). if P i line then pre @ line else line) (enumerate k xs)).
           c \<notin> set y"
  using assms by (induction xs arbitrary: k) auto

lemma lines_prefixLines:
  assumes "CHR 0x0A \<notin> set pre"
  shows "splitChar CHR 0x0A (prefixLines pre h v) =
           map (\<lambda>(i, line). if line \<noteq> [] \<and> (0 < i \<or> \<not> h) then pre @ line else line)
               (enumerate 0 (splitChar CHR 0x0A v))"
  unfolding prefixLines_def
proof (rule splitChar_join)
  show "map (\<lambda>(i, line). if line \<noteq> [] \<and> (0 < i \<or> \<not> h) then pre @ line else line)
          (enumerate 0 (splitChar CHR 0x0A v)) \<noteq> []"
    by (cases "splitChar CHR 0x0A v") simp_all
next
  fix x
  assume x: "x \<in> set (map (\<lambda>(i, line). if line \<noteq> [] \<and> (0 < i \<or> \<not> h) then pre @ line else line)
          (enumerate 0 (splitChar CHR 0x0A v)))"
  have "\<forall>x \<in> set (splitChar CHR 0x0A v). CHR 0x0A \<notin> set x"
    by (auto dest: splitChar_free)
  from prefixed_free [OF this assms, of "\<lambda>i line. line \<noteq> [] \<and> (0 < i \<or> \<not> h)" 0] x
  show "CHR 0x0A \<notin> set x"
    by (rule bspec)
qed

lemma indentPartial_prefixLines:
  "indentPartial v indent h = prefixLines (filter (\<lambda>c. c = CHR '' '' \<or> c = CHR 0x09) indent) h v"
  by (simp add: indentPartial_def prefixLines_def Let_def)

text \<open>
  C6 (as amended). A partial that resolves to the text \<open>v\<close> is parsed and rendered from
  \<^verbatim>\<open>indentedValue\<close>, which is also the original template of the nested render. It is
  \<open>v\<close> unless the tag is the first on its line (\<^verbatim>\<open>tagIndex == 0\<close>) and the indentation
  captured is not empty; then its lines are the lines of \<open>v\<close>, each line that is not empty
  with the spaces and tabs of the captured indentation in front (the other characters of
  the indentation are dropped), the first line only when \<^verbatim>\<open>lineHasNonSpace\<close> is false.
\<close>

theorem partial_indentation:
  assumes "resolvePartial p name = Some v"
  shows "renderPartial F n w (Par ty name s e indent tagIdx h) c (Some p) cfg =
           (case parse w (indentedValue v indent tagIdx h) (getConfigTags cfg) of
              (Inl err, w1) \<Rightarrow> (Inl err, w1)
            | (Inr toks, w1) \<Rightarrow>
                if n = 0 then (Inl RangeError, w1)
                else (case renderTokens F (n - 1) w1 toks c (Some p)
                             (Some (indentedValue v indent tagIdx h)) cfg of
                        (Inl err, w2) \<Rightarrow> (Inl err, w2)
                      | (Inr out, w2) \<Rightarrow> (Inr (Some out), w2)))
       \<and> (\<not> (tagIdx = 0 \<and> indent \<noteq> []) \<longrightarrow> indentedValue v indent tagIdx h = v)
       \<and> (tagIdx = 0 \<and> indent \<noteq> [] \<longrightarrow>
            splitChar CHR 0x0A (indentedValue v indent tagIdx h) =
              map (\<lambda>(i, line).
                     if line \<noteq> [] \<and> (0 < i \<or> \<not> h)
                     then filter (\<lambda>c. c = CHR '' '' \<or> c = CHR 0x09) indent @ line else line)
                  (enumerate 0 (splitChar CHR 0x0A v)))"
proof -
  have a: "renderPartial F n w (Par ty name s e indent tagIdx h) c (Some p) cfg =
           (case parse w (indentedValue v indent tagIdx h) (getConfigTags cfg) of
              (Inl err, w1) \<Rightarrow> (Inl err, w1)
            | (Inr toks, w1) \<Rightarrow>
                if n = 0 then (Inl RangeError, w1)
                else (case renderTokens F (n - 1) w1 toks c (Some p)
                             (Some (indentedValue v indent tagIdx h)) cfg of
                        (Inl err, w2) \<Rightarrow> (Inl err, w2)
                      | (Inr out, w2) \<Rightarrow> (Inr (Some out), w2)))"
    using assms by (simp add: Let_def)
  have b: "\<not> (tagIdx = 0 \<and> indent \<noteq> []) \<Longrightarrow> indentedValue v indent tagIdx h = v"
    by (auto simp: indentedValue_def)
  have "CHR 0x0A \<notin> set (filter (\<lambda>c. c = CHR '' '' \<or> c = CHR 0x09) indent)" by auto
  then have d: "tagIdx = 0 \<and> indent \<noteq> [] \<Longrightarrow>
            splitChar CHR 0x0A (indentedValue v indent tagIdx h) =
              map (\<lambda>(i, line).
                     if line \<noteq> [] \<and> (0 < i \<or> \<not> h)
                     then filter (\<lambda>c. c = CHR '' '' \<or> c = CHR 0x09) indent @ line else line)
                  (enumerate 0 (splitChar CHR 0x0A v))"
    by (simp add: indentedValue_def indentPartial_prefixLines lines_prefixLines)
  from a b d show ?thesis by blast
qed

theorem partial_indentation_witness:
  "resolvePartial (PartialsObject [''p'' \<mapsto> ''a'' @ [CHR 0x0A] @ ''b'' @ [CHR 0x0A]]) ''p'' =
     Some (''a'' @ [CHR 0x0A] @ ''b'' @ [CHR 0x0A])
   \<and> splitChar CHR 0x0A (indentedValue (''a'' @ [CHR 0x0A] @ ''b'' @ [CHR 0x0A]) ''  '' 0 False) =
       [''  a'', ''  b'', []]
   \<and> indentedValue (''a'' @ [CHR 0x0A] @ ''b'' @ [CHR 0x0A]) ''  '' 1 False =
       ''a'' @ [CHR 0x0A] @ ''b'' @ [CHR 0x0A]
   \<and> fst (renderPartial noLambdas 1 Writer (Par ''>'' ''p'' 2 8 ''  '' 0 False)
            (Context (Obj []) None)
            (Some (PartialsObject [''p'' \<mapsto> ''a'' @ [CHR 0x0A] @ ''b'' @ [CHR 0x0A]])) None) =
       Inr (Some (''  a'' @ [CHR 0x0A] @ ''  b'' @ [CHR 0x0A]))"
proof -
  have h: "resolvePartial (PartialsObject [''p'' \<mapsto> ''a'' @ [CHR 0x0A] @ ''b'' @ [CHR 0x0A]]) ''p'' =
     Some (''a'' @ [CHR 0x0A] @ ''b'' @ [CHR 0x0A])"
    by (simp add: resolvePartial_def)
  have i: "(0::nat) = 0 \<and> ''  '' \<noteq> []" "\<not> ((1::nat) = 0 \<and> ''  '' \<noteq> [])" by simp_all
  have m: "map (\<lambda>(i, line).
              if line \<noteq> [] \<and> (0 < i \<or> \<not> False)
              then filter (\<lambda>c. c = CHR '' '' \<or> c = CHR 0x09) ''  '' @ line else line)
             (enumerate 0 (splitChar CHR 0x0A (''a'' @ [CHR 0x0A] @ ''b'' @ [CHR 0x0A]))) =
           [''  a'', ''  b'', []]"
    by code_simp
  have r: "fst (renderPartial noLambdas 1 Writer (Par ''>'' ''p'' 2 8 ''  '' 0 False)
            (Context (Obj []) None)
            (Some (PartialsObject [''p'' \<mapsto> ''a'' @ [CHR 0x0A] @ ''b'' @ [CHR 0x0A]])) None) =
       Inr (Some (''  a'' @ [CHR 0x0A] @ ''  b'' @ [CHR 0x0A]))"
    by code_simp
  from partial_indentation [OF h, of noLambdas 1 Writer "''>''" 2 8 "''  ''" 0 False
      "Context (Obj []) None" None] i(1)
  have a: "splitChar CHR 0x0A (indentedValue (''a'' @ [CHR 0x0A] @ ''b'' @ [CHR 0x0A]) ''  '' 0 False) =
       map (\<lambda>(i, line).
              if line \<noteq> [] \<and> (0 < i \<or> \<not> False)
              then filter (\<lambda>c. c = CHR '' '' \<or> c = CHR 0x09) ''  '' @ line else line)
             (enumerate 0 (splitChar CHR 0x0A (''a'' @ [CHR 0x0A] @ ''b'' @ [CHR 0x0A])))"
    by blast
  from partial_indentation [OF h, of noLambdas 1 Writer "''>''" 2 8 "''  ''" 1 False
      "Context (Obj []) None" None] i(2)
  have b: "indentedValue (''a'' @ [CHR 0x0A] @ ''b'' @ [CHR 0x0A]) ''  '' 1 False =
       ''a'' @ [CHR 0x0A] @ ''b'' @ [CHR 0x0A]"
    by blast
  from h a b r show ?thesis by (simp only: m) 
qed

text \<open>
  C6 as stated fails: a carriage return before the tag is white space, so it is captured
  as indentation, and the partial text gets nothing in front, not the carriage return.
\<close>

theorem partial_indentation_counterexample:
  "parseTemplate (CHR 0x0D # ''{{>p}}'') None = Inr [Par ''>'' ''p'' 1 7 [CHR 0x0D] 0 False]
   \<and> indentedValue ''x'' [CHR 0x0D] 0 False = ''x''
   \<and> prefixLines [CHR 0x0D] False ''x'' = [CHR 0x0D, CHR ''x'']
   \<and> indentedValue ''x'' [CHR 0x0D] 0 False \<noteq> prefixLines [CHR 0x0D] False ''x''"
  by code_simp

text \<open>
  C1 fails on the code: the cache key joins the template and the tags with colons, so two
  different pairs can have one key. After \<^verbatim>\<open>parse('a:b', ['c', 'd'])\<close>, the call
  \<^verbatim>\<open>parse('a', ['b:c', 'd'])\<close> returns the tokens of the first template.
\<close>

theorem cache_key_collision:
  "cacheKey ''a:b'' (Some [''c'', ''d'']) = cacheKey ''a'' (Some [''b:c'', ''d''])
   \<and> fst (parse (snd (parse Writer ''a:b'' (Some [''c'', ''d'']))) ''a'' (Some [''b:c'', ''d''])) =
       Inr [Tok ''text'' ''a:b'' 0 3]
   \<and> parseTemplate ''a'' (Some [''b:c'', ''d'']) = Inr [Tok ''text'' ''a'' 0 1]
   \<and> fst (parse (snd (parse Writer ''a:b'' (Some [''c'', ''d'']))) ''a'' (Some [''b:c'', ''d''])) \<noteq>
       parseTemplate ''a'' (Some [''b:c'', ''d''])"
  by code_simp

section \<open>Properties of the parser: standalone lines\<close>

lemma linesOf_not_Nil [simp]: "linesOf ts \<noteq> []"
  by (induction ts) (auto split: list.splits)





lemma deleteAll_length [simp]: "length (deleteAll is ts) = length ts"
  by (induction "is" arbitrary: ts) auto
















lemma newline_space: "isWhitespace [CHR 0x0A]"
  by (simp add: isWhitespace_def isSpaceChar_def)























section \<open>Properties of the parser: errors\<close>

















end
